theory Spec2Isabelle
  imports Complex_Main "HOL-Library.Sublist" "HOL-Library.AList"
begin

section \<open>Exceptions and strings\<close>

text \<open>
  The Python code signals failure by raising. Every raise is a value here: a function that
  can raise returns \<open>exn + 'a\<close>, with \<open>Inl\<close> the exception. \<open>StatusError\<close> is an exception
  of the SDK client for an HTTP error answer: it holds the status code of the answer and the
  text that \<^verbatim>\<open>str(e)\<close> gives, which need not mention the code. \<open>RemoteError\<close> stands for any
  other exception the SDK client or \<^verbatim>\<open>requests\<close> raised, with its text. The other
  constructors are the exceptions the code raises itself or that the interpreter raises
  for it.
\<close>

datatype exn =
    StatusError int string
  | RemoteError string
  | Exception string
  | TimeoutError string
  | ValueError string
  | UnboundLocalError string

fun str :: "exn \<Rightarrow> string" where
  "str (StatusError code m) = m"
| "str (RemoteError m) = m"
| "str (Exception m) = m"
| "str (TimeoutError m) = m"
| "str (ValueError m) = m"
| "str (UnboundLocalError m) = m"

text \<open>
  Python's \<^verbatim>\<open>"500" in str(e)\<close> is the contiguous-substring test, \<^const>\<open>sublist\<close> of the
  library. Decimal rendering of an integer inside an f-string is \<open>str_int\<close>.
\<close>

function str_nat :: "nat \<Rightarrow> string" where
  "str_nat n =
     (if n < 10 then [''0123456789'' ! n]
      else str_nat (n div 10) @ [''0123456789'' ! (n mod 10)])"
  by pat_completeness auto
termination
  by (relation "measure (\<lambda>n. n)") auto

declare str_nat.simps [simp del]

definition str_int :: "int \<Rightarrow> string" where
  "str_int i = (if i < 0 then CHR ''-'' # str_nat (nat (- i)) else str_nat (nat i))"

section \<open>Namespace management\<close>

record namespace_obj =
  ns_id :: string

record response =
  status_code :: int
  resp_text :: string

text \<open>
  \<^verbatim>\<open>create_namespace\<close>. The two remote calls are the environment: \<open>entity_reply\<close> is what
  \<^verbatim>\<open>client.namespaces.create\<close> does (raise or return the object), \<open>post_reply\<close> what
  \<^verbatim>\<open>requests.post\<close> does. The Data Store request is only made when the Entity Store part
  did not raise.
\<close>

definition already_exists :: "exn \<Rightarrow> bool" where
  "already_exists e \<longleftrightarrow> sublist ''409'' (str e) \<or> sublist ''422'' (str e)"

definition create_namespace ::
  "string \<Rightarrow> exn + namespace_obj \<Rightarrow> exn + response \<Rightarrow> exn + unit" where
  "create_namespace namespace entity_reply post_reply =
     (case (case entity_reply of
              Inr namespace_obj \<Rightarrow> Inr ()
            | Inl e \<Rightarrow> if already_exists e then Inr () else Inl e) of
        Inl e \<Rightarrow> Inl e
      | Inr _ \<Rightarrow>
          (case post_reply of
             Inl e \<Rightarrow> Inl e
           | Inr resp \<Rightarrow>
               if status_code resp \<in> {200, 201} then Inr ()
               else if status_code resp \<in> {409, 422} then Inr ()
               else Inl (Exception (''Failed to create namespace in Data Store: ''
                                     @ str_int (status_code resp) @ '' - '' @ resp_text resp))))"

text \<open>
  \<^verbatim>\<open>verify_namespace\<close>. The whole body is inside \<^verbatim>\<open>try: ... except: return False\<close>, so
  a raise of either query gives \<open>False\<close>. The retrieve call may hand back \<^verbatim>\<open>None\<close>.
\<close>

definition verify_namespace ::
  "string \<Rightarrow> exn + namespace_obj option \<Rightarrow> exn + response \<Rightarrow> bool" where
  "verify_namespace namespace retrieve_reply get_reply =
     (case retrieve_reply of
        Inl e \<Rightarrow> False
      | Inr namespace_obj \<Rightarrow>
          (case get_reply of
             Inl e \<Rightarrow> False
           | Inr response \<Rightarrow> namespace_obj \<noteq> None \<and> status_code response \<in> {200, 201}))"

section \<open>Evaluation metrics\<close>

text \<open>
  A Python \<^verbatim>\<open>dict\<close> is an association list with distinct keys in insertion order;
  \<^verbatim>\<open>d[k] = v\<close> is \<open>AList.update\<close> (replace in place, or append), \<^verbatim>\<open>d[k]\<close> is
  \<^const>\<open>map_of\<close>, \<^verbatim>\<open>k in d\<close> is membership in the keys. An attribute that may be \<^verbatim>\<open>None\<close>
  is an \<open>option\<close>; \<^verbatim>\<open>if d:\<close> holds for a dict that is neither \<^verbatim>\<open>None\<close> nor empty.
  Metric values are floats in the source and exact reals here: rounding is not modelled.
\<close>

type_synonym ('k, 'v) dict = "('k \<times> 'v) list"

definition truthy :: "('k, 'v) dict option \<Rightarrow> bool" where
  "truthy d = (case d of None \<Rightarrow> False | Some kvs \<Rightarrow> kvs \<noteq> [])"

definition items :: "('k, 'v) dict option \<Rightarrow> ('k \<times> 'v) list" where
  "items d = (case d of None \<Rightarrow> [] | Some kvs \<Rightarrow> kvs)"

record score =
  score_value :: real

record metric_result =
  scores :: "(string, score) dict option"

record task_result =
  metrics :: "(string, metric_result) dict option"

record evaluation_results =
  tasks :: "(string, task_result) dict option"

text \<open>
  The metric extraction of \<^verbatim>\<open>save_evaluation_results\<close> (after the results were fetched and
  the archive written): the two nested \<^verbatim>\<open>for\<close> loops are folds over the items, the
  accumulator is the \<^verbatim>\<open>metrics\<close> dict.
\<close>

definition add_scores ::
  "string \<Rightarrow> (string \<times> score) list \<Rightarrow> (string, real) dict \<Rightarrow> (string, real) dict" where
  "add_scores metric_name ss acc =
     fold (\<lambda>(score_name, score) acc.
             AList.update (metric_name @ ''_'' @ score_name) (score_value score) acc) ss acc"

definition add_metrics ::
  "(string \<times> metric_result) list \<Rightarrow> (string, real) dict \<Rightarrow> (string, real) dict" where
  "add_metrics ms acc =
     fold (\<lambda>(metric_name, metric_result) acc.
             if truthy (scores metric_result)
             then add_scores metric_name (items (scores metric_result)) acc
             else acc) ms acc"

definition save_evaluation_results :: "evaluation_results \<Rightarrow> (string, real) dict" where
  "save_evaluation_results results =
     (if truthy (tasks results) \<and> ''qa'' \<in> fst ` set (items (tasks results)) then
        (case map_of (items (tasks results)) ''qa'' of
           None \<Rightarrow> []
         | Some qa_task \<Rightarrow>
             if truthy (metrics qa_task) then add_metrics (items (metrics qa_task)) []
             else [])
      else [])"

text \<open>
  The improvement loop of \<^verbatim>\<open>run_comparison_phase\<close>: one entry per metric name of
  \<^verbatim>\<open>base_metrics\<close> that is also in \<^verbatim>\<open>custom_metrics\<close>, holding the name and the two
  numbers that the log line prints.
\<close>

definition comparison_improvements ::
  "(string, real) dict \<Rightarrow> (string, real) dict \<Rightarrow> (string \<times> real \<times> real) list" where
  "comparison_improvements base_metrics custom_metrics =
     concat (map (\<lambda>metric_name.
        case (map_of custom_metrics metric_name, map_of base_metrics metric_name) of
          (Some c, Some b) \<Rightarrow>
            (let improvement = c - b;
                 percentage = (if b \<noteq> 0 then improvement / b * 100 else 0)
             in [(metric_name, improvement, percentage)])
        | _ \<Rightarrow> []) (map fst base_metrics))"

section \<open>Polling loops\<close>

text \<open>
  The three wait functions share one skeleton:
  \<^verbatim>\<open>start_time = time(); while time() - start_time < timeout: <fetch, decide, sleep>\<close>
  followed by \<^verbatim>\<open>raise TimeoutError(...)\<close>. The remote service and the clock are the
  environment, given as a script: one entry per status fetch, holding what the fetch does
  (raise or return), how long it took, and by how much the following \<^verbatim>\<open>sleep\<close> overran
  (\<^verbatim>\<open>sleep(n)\<close> suspends for at least \<open>n\<close> seconds). Time is in seconds, as exact reals.

  One pass through the loop body ends in one of three ways, the \<open>step\<close>. \<^verbatim>\<open>sleep\<close> of a
  negative number raises \<^verbatim>\<open>ValueError\<close>. A script that ends while the loop still polls
  gives \<open>None\<close>: the model does not know how the run goes on.
\<close>

record job =
  job_id :: string
  status :: string
  status_details :: "string option"

record deployment =
  deployment_name :: string
  deployment_namespace :: string
  deployed :: bool

record 'a poll =
  reply :: "exn + 'a"
  fetch_secs :: real
  oversleep :: real

datatype 'a step = Return 'a | Raise exn | Sleep int

record 'a wait_result =
  outcome :: "exn + 'a"
  fetches :: nat
  elapsed :: real

fun poll_loop ::
  "(exn + 'a \<Rightarrow> 'a step) \<Rightarrow> exn \<Rightarrow> int \<Rightarrow> real \<Rightarrow> nat \<Rightarrow> 'a poll list
     \<Rightarrow> 'a wait_result option" where
  "poll_loop body timeout_error timeout el n [] =
     (if el < real_of_int timeout then None
      else Some \<lparr>outcome = Inl timeout_error, fetches = n, elapsed = el\<rparr>)"
| "poll_loop body timeout_error timeout el n (p # script) =
     (if el < real_of_int timeout then
        (case body (reply p) of
           Return x \<Rightarrow> Some \<lparr>outcome = Inr x, fetches = Suc n, elapsed = el + fetch_secs p\<rparr>
         | Raise e \<Rightarrow> Some \<lparr>outcome = Inl e, fetches = Suc n, elapsed = el + fetch_secs p\<rparr>
         | Sleep secs \<Rightarrow>
             if secs < 0 then
               Some \<lparr>outcome = Inl (ValueError ''sleep length must be non-negative''),
                     fetches = Suc n, elapsed = el + fetch_secs p\<rparr>
             else poll_loop body timeout_error timeout
                    (el + fetch_secs p + real_of_int secs + oversleep p) (Suc n) script)
      else Some \<lparr>outcome = Inl timeout_error, fetches = n, elapsed = el\<rparr>)"

text \<open>
  \<^verbatim>\<open>wait_for_deployment\<close>: the fetch is inside \<^verbatim>\<open>try\<close>, so an exception is logged as a
  warning and followed by \<^verbatim>\<open>sleep(10)\<close>, like a deployment that is not ready yet.
\<close>

definition deployment_body :: "exn + deployment \<Rightarrow> deployment step" where
  "deployment_body r =
     (case r of
        Inl e \<Rightarrow> Sleep 10
      | Inr deployment \<Rightarrow> if deployed deployment then Return deployment else Sleep 10)"

definition wait_for_deployment ::
  "string \<Rightarrow> string \<Rightarrow> int \<Rightarrow> deployment poll list \<Rightarrow> deployment wait_result option" where
  "wait_for_deployment model_name namespace timeout script =
     poll_loop deployment_body
       (TimeoutError (''Deployment '' @ model_name @ '' did not complete within ''
                       @ str_int timeout @ '' seconds''))
       timeout 0 0 script"

text \<open>
  \<^verbatim>\<open>wait_for_customization\<close> and \<^verbatim>\<open>wait_for_evaluation\<close>: the fetch is not inside a
  \<^verbatim>\<open>try\<close>, so its exception leaves the function. The branches on the status are the
  source's \<^verbatim>\<open>if / elif / elif / else\<close>; the progress lines they log do not change the
  control flow. \<open>status_details\<close> holds the text that the f-string prints for the details
  object, \<open>None\<close> when the attribute is \<^verbatim>\<open>None\<close>.
\<close>

definition customization_body :: "string \<Rightarrow> int \<Rightarrow> exn + job \<Rightarrow> job step" where
  "customization_body jid polling_interval r =
     (case r of
        Inl e \<Rightarrow> Raise e
      | Inr job \<Rightarrow>
          if status job = ''completed'' then Return job
          else if status job = ''failed'' then
            Raise (Exception (''Customization job '' @ jid @ '' failed: ''
                               @ (case status_details job of None \<Rightarrow> ''None'' | Some d \<Rightarrow> d)))
          else if status job \<in> set [''pending'', ''created'', ''running''] then
            Sleep polling_interval
          else Sleep polling_interval)"

definition wait_for_customization ::
  "string \<Rightarrow> int \<Rightarrow> int \<Rightarrow> job poll list \<Rightarrow> job wait_result option" where
  "wait_for_customization jid polling_interval timeout script =
     poll_loop (customization_body jid polling_interval)
       (TimeoutError (''Customization job '' @ jid @ '' did not complete within ''
                       @ str_int timeout @ '' seconds''))
       timeout 0 0 script"

definition evaluation_body :: "string \<Rightarrow> int \<Rightarrow> exn + job \<Rightarrow> job step" where
  "evaluation_body jid polling_interval r =
     (case r of
        Inl e \<Rightarrow> Raise e
      | Inr job \<Rightarrow>
          if status job = ''completed'' then Return job
          else if status job = ''failed'' then
            Raise (Exception (''Evaluation job '' @ jid @ '' failed''))
          else if status job \<in> set [''pending'', ''created'', ''running''] then
            Sleep polling_interval
          else Sleep polling_interval)"

definition wait_for_evaluation ::
  "string \<Rightarrow> int \<Rightarrow> int \<Rightarrow> job poll list \<Rightarrow> job wait_result option" where
  "wait_for_evaluation jid polling_interval timeout script =
     poll_loop (evaluation_body jid polling_interval)
       (TimeoutError (''Evaluation job '' @ jid @ '' did not complete within ''
                       @ str_int timeout @ '' seconds''))
       timeout 0 0 script"

section \<open>Model deployment\<close>

text \<open>
  \<^verbatim>\<open>deploy_nim\<close>. The environment holds what the create call does, the script of the
  wait loop, and what a retrieve call does for a namespace and a deployment name (the
  handler calls it with \<^verbatim>\<open>namespace=namespace, deployment_name=model_name\<close>). The \<^verbatim>\<open>try\<close> block covers the
  create call and the wait; the handler tests \<^verbatim>\<open>"500" in str(e)\<close> and then returns the
  local variable \<^verbatim>\<open>deployment\<close>, which is unbound when the create call itself raised:
  Python raises \<^verbatim>\<open>UnboundLocalError\<close> there.
\<close>

record deploy_env =
  create_reply :: "exn + deployment"
  wait_script :: "deployment poll list"
  retrieve_by_name :: "string \<Rightarrow> string \<Rightarrow> exn + deployment"

text \<open>
  A service that holds the given deployments answers a retrieve call with the record of
  that namespace and name, and with a 404 error when it has none.
\<close>

definition retrieve_from :: "deployment list \<Rightarrow> string \<Rightarrow> string \<Rightarrow> exn + deployment" where
  "retrieve_from held namespace name =
     (case find (\<lambda>d. deployment_namespace d = namespace \<and> deployment_name d = name) held of
        Some d \<Rightarrow> Inr d
      | None \<Rightarrow> Inl (StatusError 404 ''Error code: 404 - deployment not found''))"

definition deploy_nim_handler ::
  "string \<Rightarrow> string \<Rightarrow> deploy_env \<Rightarrow> deployment option \<Rightarrow> exn \<Rightarrow> exn + deployment" where
  "deploy_nim_handler model_name namespace env deployment e =
     (if sublist ''500'' (str e) then retrieve_by_name env namespace model_name
      else (case deployment of
              None \<Rightarrow> Inl (UnboundLocalError
                ''cannot access local variable 'deployment' where it is not associated with a value'')
            | Some d \<Rightarrow> Inr d))"

definition deploy_nim ::
  "string \<Rightarrow> string \<Rightarrow> bool \<Rightarrow> int \<Rightarrow> deploy_env \<Rightarrow> (exn + deployment) option" where
  "deploy_nim model_name namespace wait timeout env =
     (case create_reply env of
        Inl e \<Rightarrow> Some (deploy_nim_handler model_name namespace env None e)
      | Inr d \<Rightarrow>
          if wait then
            (case wait_for_deployment model_name namespace timeout (wait_script env) of
               None \<Rightarrow> None
             | Some r \<Rightarrow>
                 (case outcome r of
                    Inl e \<Rightarrow> Some (deploy_nim_handler model_name namespace env (Some d) e)
                  | Inr d' \<Rightarrow> Some (Inr d')))
          else Some (Inr d))"

section \<open>Pipeline\<close>

text \<open>
  The phases of \<^verbatim>\<open>main\<close>. What the remote work inside each phase's \<^verbatim>\<open>try\<close> block does is
  the environment \<open>world\<close>: it returns or raises. Each phase function gives its result
  together with the phases whose body ran, so that \<^verbatim>\<open>main\<close> yields the list of phases
  executed and the exit code. A string that may be \<^verbatim>\<open>None\<close> is an \<open>option\<close>; it is true
  in a condition when it is neither \<^verbatim>\<open>None\<close> nor empty.
\<close>

datatype phase = Deploy | PrepareDataset | Customize | Evaluate | Compare

record args =
  deploy :: bool
  prepare_dataset :: bool
  customize :: bool
  evaluate :: bool
  compare :: bool
  all :: bool
  eval_model :: "string option"

record world =
  base_model :: string
  deployment_outcome :: "exn + deployment"
  dataset_outcome :: "exn + unit"
  customization_outcome :: "exn + string"
  evaluation_outcome :: "string \<Rightarrow> exn + (string, real) dict"

definition str_truthy :: "string option \<Rightarrow> bool" where
  "str_truthy s = (case s of None \<Rightarrow> False | Some v \<Rightarrow> v \<noteq> [])"

definition run_deployment_phase :: "args \<Rightarrow> world \<Rightarrow> bool \<times> phase list" where
  "run_deployment_phase a w =
     (if \<not> deploy a then (True, [])
      else (case deployment_outcome w of
              Inr deployment \<Rightarrow> (True, [Deploy])
            | Inl e \<Rightarrow> (False, [Deploy])))"

definition run_dataset_preparation_phase :: "args \<Rightarrow> world \<Rightarrow> bool \<times> phase list" where
  "run_dataset_preparation_phase a w =
     (if \<not> prepare_dataset a then (True, [])
      else (case dataset_outcome w of
              Inr dataset \<Rightarrow> (True, [PrepareDataset])
            | Inl e \<Rightarrow> (False, [PrepareDataset])))"

definition run_customization_phase :: "args \<Rightarrow> world \<Rightarrow> string option \<times> phase list" where
  "run_customization_phase a w =
     (if \<not> customize a then (None, [])
      else (case customization_outcome w of
              Inr output_model \<Rightarrow> (Some output_model, [Customize])
            | Inl e \<Rightarrow> (None, [Customize])))"

definition run_evaluation_phase ::
  "args \<Rightarrow> world \<Rightarrow> string option \<Rightarrow> (string, real) dict \<times> phase list" where
  "run_evaluation_phase a w model_name =
     (if \<not> evaluate a then ([], [])
      else
        (let model =
           (case model_name of
              Some m \<Rightarrow> if m \<noteq> [] then m
                        else (case eval_model a of
                                Some m' \<Rightarrow> if m' \<noteq> [] then m' else base_model w
                              | None \<Rightarrow> base_model w)
            | None \<Rightarrow> (case eval_model a of
                         Some m' \<Rightarrow> if m' \<noteq> [] then m' else base_model w
                       | None \<Rightarrow> base_model w))
         in case evaluation_outcome w model of
              Inr found \<Rightarrow> (found, [Evaluate])
            | Inl e \<Rightarrow> ([], [Evaluate])))"

definition run_comparison_phase ::
  "args \<Rightarrow> world \<Rightarrow> string option \<Rightarrow> (string \<times> real \<times> real) list \<times> phase list" where
  "run_comparison_phase a w custom_model =
     (if \<not> compare a \<or> \<not> str_truthy custom_model then ([], [])
      else
        (case run_evaluation_phase a w (Some (base_model w)) of
           (base_metrics, t1) \<Rightarrow>
             (case run_evaluation_phase a w custom_model of
                (custom_metrics, t2) \<Rightarrow>
                  (comparison_improvements base_metrics custom_metrics, Compare # t1 @ t2))))"

text \<open>
  \<^verbatim>\<open>main\<close>, from the point where the arguments are parsed: \<^verbatim>\<open>--all\<close> switches every phase
  on; then the five phases, each behind its gate, with \<^verbatim>\<open>return 1\<close> after a failed phase
  when \<^verbatim>\<open>--all\<close> is not set, and \<^verbatim>\<open>return 0\<close> at the end.
\<close>

definition main :: "args \<Rightarrow> world \<Rightarrow> phase list \<times> int" where
  "main a0 w =
     (let a = (if all a0
               then a0\<lparr>deploy := True, prepare_dataset := True, customize := True,
                       evaluate := True, compare := True\<rparr>
               else a0)
      in case (if deploy a then run_deployment_phase a w else (True, [])) of
        (success, t1) \<Rightarrow>
          if deploy a \<and> \<not> success \<and> \<not> all a then (t1, 1)
          else
            case (if prepare_dataset a \<and> success then run_dataset_preparation_phase a w
                  else (success, [])) of
              (success', t2) \<Rightarrow>
                if (prepare_dataset a \<and> success) \<and> \<not> success' \<and> \<not> all a then (t1 @ t2, 1)
                else
                  case (if customize a \<and> success' then run_customization_phase a w
                        else (None, [])) of
                    (custom_model, t3) \<Rightarrow>
                      if (customize a \<and> success') \<and> \<not> str_truthy custom_model \<and> \<not> all a
                      then (t1 @ t2 @ t3, 1)
                      else
                        (let t4 = (if evaluate a \<and> success'
                                   then snd (run_evaluation_phase a w custom_model) else []);
                             t5 = (if compare a \<and> str_truthy custom_model
                                   then snd (run_comparison_phase a w custom_model) else [])
                         in (t1 @ t2 @ t3 @ t4 @ t5, 0)))"

section \<open>Properties of namespace management\<close>

text \<open>
  Claim C7. \<^verbatim>\<open>create_namespace\<close> succeeds whenever the Entity Store either creates the
  namespace or raises an exception whose text contains \<^verbatim>\<open>409\<close> or \<^verbatim>\<open>422\<close> (the test by
  which the code recognises an existing namespace), and the Data Store answers 200, 201,
  409 or 422. So a second call with the same name succeeds like the first one when the
  Entity Store's duplicate error mentions its code and the Data Store answers with the
  conflict status. An Entity Store exception whose text contains neither code is re-raised
  unchanged, an exception of the Data Store request propagates, and any other Data Store
  status raises.
\<close>

theorem create_namespace_idempotent:
  "(status_code resp \<in> {200, 201, 409, 422} \<longrightarrow>
      create_namespace namespace (Inr obj) (Inr resp) = Inr ()) \<and>
   (already_exists e \<and> status_code resp \<in> {200, 201, 409, 422} \<longrightarrow>
      create_namespace namespace (Inl e) (Inr resp) = Inr ()) \<and>
   (\<not> already_exists e' \<longrightarrow> create_namespace namespace (Inl e') post_reply = Inl e') \<and>
   create_namespace namespace (Inr obj) (Inl e'') = Inl e'' \<and>
   (already_exists e \<longrightarrow> create_namespace namespace (Inl e) (Inl e'') = Inl e'') \<and>
   (status_code resp' \<notin> {200, 201, 409, 422} \<longrightarrow>
      (\<exists>m. create_namespace namespace (Inr obj) (Inr resp') = Inl (Exception m)) \<and>
      (already_exists e \<longrightarrow>
         (\<exists>m. create_namespace namespace (Inl e) (Inr resp') = Inl (Exception m))))"
  by (auto simp: create_namespace_def)

theorem create_namespace_idempotent_witness:
  "create_namespace ''lora-tutorial-ns'' (Inr \<lparr>ns_id = ''lora-tutorial-ns''\<rparr>)
     (Inr \<lparr>status_code = 201, resp_text = ''created''\<rparr>) = Inr () \<and>
   create_namespace ''lora-tutorial-ns'' (Inl (RemoteError ''Error code: 409 - conflict''))
     (Inr \<lparr>status_code = 409, resp_text = ''exists''\<rparr>) = Inr () \<and>
   create_namespace ''lora-tutorial-ns'' (Inl (RemoteError ''Connection refused''))
     (Inr \<lparr>status_code = 201, resp_text = ''created''\<rparr>) = Inl (RemoteError ''Connection refused'') \<and>
   create_namespace ''lora-tutorial-ns'' (Inr \<lparr>ns_id = ''lora-tutorial-ns''\<rparr>)
     (Inl (RemoteError ''Read timed out'')) = Inl (RemoteError ''Read timed out'') \<and>
   (\<exists>m. create_namespace ''lora-tutorial-ns'' (Inr \<lparr>ns_id = ''lora-tutorial-ns''\<rparr>)
     (Inr \<lparr>status_code = 503, resp_text = ''unavailable''\<rparr>) = Inl (Exception m))"
proof -
  have conflict: "already_exists (RemoteError ''Error code: 409 - conflict'')"
    unfolding already_exists_def by code_simp
  have other: "\<not> already_exists (RemoteError ''Connection refused'')"
    unfolding already_exists_def by code_simp
  have first_call: "create_namespace ''lora-tutorial-ns'' (Inr \<lparr>ns_id = ''lora-tutorial-ns''\<rparr>)
     (Inr \<lparr>status_code = 201, resp_text = ''created''\<rparr>) = Inr ()"
    using create_namespace_idempotent
      [where resp = "\<lparr>status_code = 201, resp_text = ''created''\<rparr>"
         and obj = "\<lparr>ns_id = ''lora-tutorial-ns''\<rparr>" and namespace = "''lora-tutorial-ns''"]
    by simp
  have second_call: "create_namespace ''lora-tutorial-ns''
     (Inl (RemoteError ''Error code: 409 - conflict''))
     (Inr \<lparr>status_code = 409, resp_text = ''exists''\<rparr>) = Inr ()"
    using conflict create_namespace_idempotent
      [where resp = "\<lparr>status_code = 409, resp_text = ''exists''\<rparr>"
         and e = "RemoteError ''Error code: 409 - conflict''"
         and namespace = "''lora-tutorial-ns''"]
    by simp
  have rest: "create_namespace ''lora-tutorial-ns'' (Inl (RemoteError ''Connection refused''))
       (Inr \<lparr>status_code = 201, resp_text = ''created''\<rparr>) = Inl (RemoteError ''Connection refused'') \<and>
     create_namespace ''lora-tutorial-ns'' (Inr \<lparr>ns_id = ''lora-tutorial-ns''\<rparr>)
       (Inl (RemoteError ''Read timed out'')) = Inl (RemoteError ''Read timed out'') \<and>
     (\<exists>m. create_namespace ''lora-tutorial-ns'' (Inr \<lparr>ns_id = ''lora-tutorial-ns''\<rparr>)
       (Inr \<lparr>status_code = 503, resp_text = ''unavailable''\<rparr>) = Inl (Exception m))"
    using other create_namespace_idempotent
      [where e' = "RemoteError ''Connection refused''"
         and e'' = "RemoteError ''Read timed out''"
         and obj = "\<lparr>ns_id = ''lora-tutorial-ns''\<rparr>"
         and post_reply = "Inr \<lparr>status_code = 201, resp_text = ''created''\<rparr>"
         and resp' = "\<lparr>status_code = 503, resp_text = ''unavailable''\<rparr>"
         and namespace = "''lora-tutorial-ns''"]
    by simp
  from first_call second_call rest show ?thesis
    by blast
qed

text \<open>
  For the Entity Store the recognition is by the text alone, not by the status. A duplicate
  create answered with status 409 and the text \<^verbatim>\<open>conflict\<close> is re-raised, so the second
  call fails with the duplicate error; an answer with status 404 whose text happens to
  contain \<^verbatim>\<open>422\<close> is taken for an existing namespace and the call succeeds.
\<close>

theorem create_namespace_idempotent_counterexample:
  "create_namespace ''lora-tutorial-ns'' (Inl (StatusError 409 ''conflict''))
     (Inr \<lparr>status_code = 409, resp_text = ''exists''\<rparr>) = Inl (StatusError 409 ''conflict'') \<and>
   create_namespace ''lora-tutorial-ns''
     (Inl (StatusError 404 ''route /v1/namespaces-422 not found''))
     (Inr \<lparr>status_code = 201, resp_text = ''created''\<rparr>) = Inr ()"
proof -
  have "\<not> already_exists (StatusError 409 ''conflict'')"
    unfolding already_exists_def by code_simp
  moreover have "already_exists (StatusError 404 ''route /v1/namespaces-422 not found'')"
    unfolding already_exists_def by code_simp
  ultimately show ?thesis
    by (simp add: create_namespace_def)
qed

text \<open>
  Claim C8. \<^verbatim>\<open>verify_namespace\<close> returns a boolean, true exactly when the Entity Store
  returned an object and the Data Store answered 200 or 201; an exception of either query
  gives false.
\<close>

theorem verify_namespace_bool:
  "(verify_namespace namespace retrieve_reply get_reply \<longleftrightarrow>
      (\<exists>obj resp. retrieve_reply = Inr (Some obj) \<and> get_reply = Inr resp \<and>
                  status_code resp \<in> {200, 201})) \<and>
   verify_namespace namespace (Inl e) get_reply = False \<and>
   verify_namespace namespace retrieve_reply (Inl e) = False"
  by (auto simp: verify_namespace_def split: sum.splits)

section \<open>Properties of the evaluation metrics\<close>

lemma keys_add_scores:
  "fst ` set (add_scores m ss acc) = fst ` set acc \<union> (\<lambda>(s, sc). m @ ''_'' @ s) ` set ss"
  unfolding add_scores_def
proof (induction ss arbitrary: acc)
  case Nil
  then show ?case by simp
next
  case (Cons p ps)
  obtain s sc where p: "p = (s, sc)" by (cases p)
  have "fst ` set (AList.update (m @ ''_'' @ s) (score_value sc) acc) =
      insert (m @ ''_'' @ s) (fst ` set acc)"
    by (simp add: AList.dom_update)
  with Cons.IH [of "AList.update (m @ ''_'' @ s) (score_value sc) acc"] show ?case
    by (simp add: p Un_commute insert_commute)
qed

lemma keys_add_metrics:
  "fst ` set (add_metrics ms acc) =
     fst ` set acc \<union> {m @ ''_'' @ s | m mr s sc. (m, mr) \<in> set ms \<and> (s, sc) \<in> set (items (scores mr))}"
  unfolding add_metrics_def
proof (induction ms arbitrary: acc)
  case Nil
  then show ?case by simp
next
  case (Cons p ps)
  obtain m mr where p: "p = (m, mr)" by (cases p)
  show ?case
  proof (cases "truthy (scores mr)")
    case True
    then show ?thesis
      using Cons.IH [of "add_scores m (items (scores mr)) acc"]
      by (auto simp: p keys_add_scores)
  next
    case False
    then have "items (scores mr) = []"
      by (auto simp: truthy_def items_def split: option.splits)
    with False show ?thesis
      using Cons.IH [of acc] by (auto simp: p)
  qed
qed

lemma value_add_scores:
  "map_of (add_scores m ss acc) k = Some v \<Longrightarrow>
     map_of acc k = Some v \<or> (\<exists>s sc. (s, sc) \<in> set ss \<and> k = m @ ''_'' @ s \<and> v = score_value sc)"
  unfolding add_scores_def
proof (induction ss arbitrary: acc)
  case Nil
  then show ?case by simp
next
  case (Cons p ps)
  obtain s sc where p: "p = (s, sc)" by (cases p)
  from Cons.prems Cons.IH [of "AList.update (m @ ''_'' @ s) (score_value sc) acc"]
  show ?case
    by (auto simp: p AList.update_conv' split: if_splits)
qed

lemma value_add_metrics:
  "map_of (add_metrics ms acc) k = Some v \<Longrightarrow>
     map_of acc k = Some v \<or>
     (\<exists>m mr s sc. (m, mr) \<in> set ms \<and> (s, sc) \<in> set (items (scores mr)) \<and>
                  k = m @ ''_'' @ s \<and> v = score_value sc)"
  unfolding add_metrics_def
proof (induction ms arbitrary: acc)
  case Nil
  then show ?case by simp
next
  case (Cons p ps)
  obtain m mr where p: "p = (m, mr)" by (cases p)
  show ?case
  proof (cases "truthy (scores mr)")
    case True
    with Cons.prems Cons.IH [of "add_scores m (items (scores mr)) acc"]
    have "map_of (add_scores m (items (scores mr)) acc) k = Some v \<or>
      (\<exists>m mr s sc. (m, mr) \<in> set ps \<and> (s, sc) \<in> set (items (scores mr)) \<and>
                  k = m @ ''_'' @ s \<and> v = score_value sc)"
      by (simp add: p)
    then show ?thesis
      using value_add_scores [of m "items (scores mr)" acc k v]
      by (fastforce simp: p)
  next
    case False
    with Cons.prems Cons.IH [of acc] show ?thesis
      by (fastforce simp: p)
  qed
qed

text \<open>
  Claim C10. The metric extraction reads the task named \<^verbatim>\<open>qa\<close> only and flattens its
  per-metric, per-score result into a dict keyed \<^verbatim>\<open>{metric}_{score}\<close>: the example of the
  specification gives \<^verbatim>\<open>{"f1_default": 0.83}\<close>; a \<^verbatim>\<open>qa\<close> task whose metrics are empty or
  absent, and a metric whose scores are empty or absent, give no key and no failure; in
  general the keys are exactly the \<^verbatim>\<open>{metric}_{score}\<close> of the scores present in the \<^verbatim>\<open>qa\<close>
  task, and every value is the value of such a score. Without tasks, or without a task
  named \<^verbatim>\<open>qa\<close>, the result is empty.
\<close>

theorem save_evaluation_results_flattens:
  "save_evaluation_results
     \<lparr>tasks = Some [(''qa'', \<lparr>metrics = Some [(''f1'',
        \<lparr>scores = Some [(''default'', \<lparr>score_value = 0.83\<rparr>)]\<rparr>)]\<rparr>)]\<rparr>
     = [(''f1_default'', 0.83)] \<and>
   save_evaluation_results \<lparr>tasks = Some [(''qa'', \<lparr>metrics = Some []\<rparr>)]\<rparr> = [] \<and>
   save_evaluation_results \<lparr>tasks = Some [(''qa'', \<lparr>metrics = None\<rparr>)]\<rparr> = [] \<and>
   save_evaluation_results
     \<lparr>tasks = Some [(''qa'', \<lparr>metrics = Some [(m, \<lparr>scores = Some []\<rparr>)]\<rparr>)]\<rparr> = [] \<and>
   save_evaluation_results
     \<lparr>tasks = Some [(''qa'', \<lparr>metrics = Some [(m, \<lparr>scores = None\<rparr>)]\<rparr>)]\<rparr> = [] \<and>
   (map_of ts ''qa'' = Some qa_task \<longrightarrow>
      fst ` set (save_evaluation_results \<lparr>tasks = Some ts\<rparr>) =
        {m @ ''_'' @ s | m mr s sc.
           (m, mr) \<in> set (items (metrics qa_task)) \<and> (s, sc) \<in> set (items (scores mr))} \<and>
      (map_of (save_evaluation_results \<lparr>tasks = Some ts\<rparr>) k = Some v \<longrightarrow>
         (\<exists>m mr s sc. (m, mr) \<in> set (items (metrics qa_task)) \<and>
            (s, sc) \<in> set (items (scores mr)) \<and> k = m @ ''_'' @ s \<and> v = score_value sc))) \<and>
   save_evaluation_results \<lparr>tasks = None\<rparr> = [] \<and>
   (map_of ts' ''qa'' = None \<longrightarrow> save_evaluation_results \<lparr>tasks = Some ts'\<rparr> = [])"
proof -
  have absent: "save_evaluation_results \<lparr>tasks = None\<rparr> = []"
    by (simp add: save_evaluation_results_def truthy_def)
  have other: "map_of ts' ''qa'' = None \<longrightarrow> save_evaluation_results \<lparr>tasks = Some ts'\<rparr> = []"
    by (simp add: save_evaluation_results_def items_def map_of_eq_None_iff)
  have general: "fst ` set (save_evaluation_results \<lparr>tasks = Some ts\<rparr>) =
        {m @ ''_'' @ s | m mr s sc.
           (m, mr) \<in> set (items (metrics qa_task)) \<and> (s, sc) \<in> set (items (scores mr))} \<and>
      (map_of (save_evaluation_results \<lparr>tasks = Some ts\<rparr>) k = Some v \<longrightarrow>
         (\<exists>m mr s sc. (m, mr) \<in> set (items (metrics qa_task)) \<and>
            (s, sc) \<in> set (items (scores mr)) \<and> k = m @ ''_'' @ s \<and> v = score_value sc))"
    if qa: "map_of ts ''qa'' = Some qa_task"
  proof -
    from qa have mem: "''qa'' \<in> fst ` set ts" and ne: "ts \<noteq> []"
      by (auto dest: map_of_SomeD intro: rev_image_eqI)
    show ?thesis
    proof (cases "truthy (metrics qa_task)")
      case True
      with qa mem ne have eq: "save_evaluation_results \<lparr>tasks = Some ts\<rparr> =
          add_metrics (items (metrics qa_task)) []"
        by (simp add: save_evaluation_results_def truthy_def items_def)
      show ?thesis
        unfolding eq
        using keys_add_metrics [of "items (metrics qa_task)" "[]"]
          value_add_metrics [of "items (metrics qa_task)" "[]" k v]
        by auto
    next
      case False
      then have empty: "items (metrics qa_task) = []"
        by (auto simp: truthy_def items_def split: option.splits)
      from False qa mem ne have "save_evaluation_results \<lparr>tasks = Some ts\<rparr> = []"
        by (simp add: save_evaluation_results_def truthy_def items_def)
      with empty show ?thesis by simp
    qed
  qed
  have examples: "save_evaluation_results
     \<lparr>tasks = Some [(''qa'', \<lparr>metrics = Some [(''f1'',
        \<lparr>scores = Some [(''default'', \<lparr>score_value = 0.83\<rparr>)]\<rparr>)]\<rparr>)]\<rparr>
     = [(''f1_default'', 0.83)]"
    "save_evaluation_results \<lparr>tasks = Some [(''qa'', \<lparr>metrics = Some []\<rparr>)]\<rparr> = []"
    "save_evaluation_results \<lparr>tasks = Some [(''qa'', \<lparr>metrics = None\<rparr>)]\<rparr> = []"
    "save_evaluation_results
     \<lparr>tasks = Some [(''qa'', \<lparr>metrics = Some [(m, \<lparr>scores = Some []\<rparr>)]\<rparr>)]\<rparr> = []"
    "save_evaluation_results
     \<lparr>tasks = Some [(''qa'', \<lparr>metrics = Some [(m, \<lparr>scores = None\<rparr>)]\<rparr>)]\<rparr> = []"
    by (simp_all add: save_evaluation_results_def truthy_def items_def add_metrics_def
        add_scores_def)
  from general examples absent other show ?thesis by blast
qed

theorem save_evaluation_results_flattens_witness:
  "map_of [(''other'', \<lparr>metrics = None\<rparr>), (''qa'', \<lparr>metrics = Some [(''em'', \<lparr>scores = None\<rparr>),
      (''f1'', \<lparr>scores = Some [(''default'', \<lparr>score_value = 0.83\<rparr>)]\<rparr>)]\<rparr>)] ''qa''
     = Some \<lparr>metrics = Some [(''em'', \<lparr>scores = None\<rparr>),
      (''f1'', \<lparr>scores = Some [(''default'', \<lparr>score_value = 0.83\<rparr>)]\<rparr>)]\<rparr> \<and>
   fst ` set (save_evaluation_results \<lparr>tasks = Some [(''other'', \<lparr>metrics = None\<rparr>),
      (''qa'', \<lparr>metrics = Some [(''em'', \<lparr>scores = None\<rparr>),
      (''f1'', \<lparr>scores = Some [(''default'', \<lparr>score_value = 0.83\<rparr>)]\<rparr>)]\<rparr>)]\<rparr>) = {''f1_default''} \<and>
   map_of [(''other'', \<lparr>metrics = Some [(''f1'',
      \<lparr>scores = Some [(''default'', \<lparr>score_value = 0.83\<rparr>)]\<rparr>)]\<rparr>)] ''qa'' = None \<and>
   save_evaluation_results \<lparr>tasks = Some [(''other'', \<lparr>metrics = Some [(''f1'',
      \<lparr>scores = Some [(''default'', \<lparr>score_value = 0.83\<rparr>)]\<rparr>)]\<rparr>)]\<rparr> = []"
proof -
  let ?other = "[(''other'', \<lparr>metrics = Some [(''f1'',
      \<lparr>scores = Some [(''default'', \<lparr>score_value = 0.83\<rparr>)]\<rparr>)]\<rparr>)]"
  have h': "map_of ?other ''qa'' = None" by simp
  have none: "save_evaluation_results \<lparr>tasks = Some ?other\<rparr> = []"
    using h' save_evaluation_results_flattens [where ts' = ?other] by blast
  let ?qa = "\<lparr>metrics = Some [(''em'', \<lparr>scores = None\<rparr>),
      (''f1'', \<lparr>scores = Some [(''default'', \<lparr>score_value = 0.83\<rparr>)]\<rparr>)]\<rparr>"
  let ?ts = "[(''other'', \<lparr>metrics = None\<rparr>), (''qa'', ?qa)]"
  have h: "map_of ?ts ''qa'' = Some ?qa" by simp
  have "fst ` set (save_evaluation_results \<lparr>tasks = Some ?ts\<rparr>) =
        {m @ ''_'' @ s | m mr s sc.
           (m, mr) \<in> set (items (metrics ?qa)) \<and> (s, sc) \<in> set (items (scores mr))}"
    using h save_evaluation_results_flattens [where ts = ?ts and qa_task = ?qa] by blast
  also have "\<dots> = {''f1_default''}"
  proof -
    have "\<exists>m mr s sc. ''f1_default'' = m @ ''_'' @ s \<and>
        (m, mr) \<in> set (items (metrics ?qa)) \<and> (s, sc) \<in> set (items (scores mr))"
      by (rule exI [of _ "''f1''"],
          rule exI [of _ "\<lparr>scores = Some [(''default'', \<lparr>score_value = 0.83\<rparr>)]\<rparr>"],
          rule exI [of _ "''default''"], rule exI [of _ "\<lparr>score_value = 0.83\<rparr>"])
        (simp add: items_def)
    moreover have "x = ''f1_default''"
      if "\<exists>m mr s sc. x = m @ ''_'' @ s \<and>
        (m, mr) \<in> set (items (metrics ?qa)) \<and> (s, sc) \<in> set (items (scores mr))" for x
      using that by (auto simp: items_def)
    ultimately show ?thesis by blast
  qed
  finally show ?thesis using h h' none by blast
qed


text \<open>
  Tasks of any other name are not read: the same metric under a task named
  \<^verbatim>\<open>summarization\<close> gives no key at all, also next to a \<^verbatim>\<open>qa\<close> task.
\<close>

theorem save_evaluation_results_flattens_counterexample:
  "save_evaluation_results
     \<lparr>tasks = Some [(''summarization'', \<lparr>metrics = Some [(''f1'',
        \<lparr>scores = Some [(''default'', \<lparr>score_value = 0.83\<rparr>)]\<rparr>)]\<rparr>)]\<rparr> = [] \<and>
   save_evaluation_results
     \<lparr>tasks = Some [(''summarization'', \<lparr>metrics = Some [(''rouge'',
        \<lparr>scores = Some [(''default'', \<lparr>score_value = 0.5\<rparr>)]\<rparr>)]\<rparr>),
       (''qa'', \<lparr>metrics = Some [(''f1'',
        \<lparr>scores = Some [(''default'', \<lparr>score_value = 0.83\<rparr>)]\<rparr>)]\<rparr>)]\<rparr>
     = [(''f1_default'', 0.83)]"
  by (simp add: save_evaluation_results_def truthy_def items_def add_metrics_def
      add_scores_def)

lemma mem_comparison_improvements:
  "(n, d, p) \<in> set (comparison_improvements base_metrics custom_metrics) \<longleftrightarrow>
     n \<in> fst ` set base_metrics \<and>
     (\<exists>b c. map_of base_metrics n = Some b \<and> map_of custom_metrics n = Some c \<and>
            d = c - b \<and> p = (if b \<noteq> 0 then (c - b) / b * 100 else 0))"
proof -
  define row where "row = (\<lambda>metric_name.
        case (map_of custom_metrics metric_name, map_of base_metrics metric_name) of
          (Some c, Some b) \<Rightarrow>
            (let improvement = c - b;
                 percentage = (if b \<noteq> 0 then improvement / b * 100 else 0)
             in [(metric_name, improvement, percentage)])
        | _ \<Rightarrow> [])"
  have row: "(n, d, p) \<in> set (row k) \<longleftrightarrow>
      k = n \<and> (\<exists>b c. map_of base_metrics n = Some b \<and> map_of custom_metrics n = Some c \<and>
            d = c - b \<and> p = (if b \<noteq> 0 then (c - b) / b * 100 else 0))" for k
    by (cases "map_of custom_metrics k"; cases "map_of base_metrics k")
       (auto simp: row_def Let_def)
  have "comparison_improvements base_metrics custom_metrics = concat (map row (map fst base_metrics))"
    by (simp add: comparison_improvements_def row_def)
  then have "(n, d, p) \<in> set (comparison_improvements base_metrics custom_metrics) \<longleftrightarrow>
      (\<exists>k \<in> fst ` set base_metrics. (n, d, p) \<in> set (row k))"
    by auto
  also have "\<dots> \<longleftrightarrow> n \<in> fst ` set base_metrics \<and>
     (\<exists>b c. map_of base_metrics n = Some b \<and> map_of custom_metrics n = Some c \<and>
            d = c - b \<and> p = (if b \<noteq> 0 then (c - b) / b * 100 else 0))"
    unfolding row by blast
  finally show ?thesis .
qed

text \<open>
  Claim C9. For every metric name present in both metric sets the comparison reports the
  delta \<open>custom - base\<close>, and as percentage \<open>delta / base * 100\<close> when the base value is not
  zero and \<open>0\<close> when it is zero; nothing else is reported. The example of the specification
  gives \<open>+0.2\<close> and \<open>+40\<close> for \<^verbatim>\<open>f1\<close>, and \<open>+0.2\<close> with percentage \<open>0\<close> for \<^verbatim>\<open>exact\<close>.
\<close>

theorem comparison_improvements_delta:
  "(map_of base_metrics name = Some b \<and> map_of custom_metrics name = Some c \<longrightarrow>
      (name, c - b, if b \<noteq> 0 then (c - b) / b * 100 else 0)
        \<in> set (comparison_improvements base_metrics custom_metrics)) \<and>
   ((name', d, pct) \<in> set (comparison_improvements base_metrics custom_metrics) \<longrightarrow>
      (\<exists>b c. map_of base_metrics name' = Some b \<and> map_of custom_metrics name' = Some c \<and>
             d = c - b \<and> pct = (if b \<noteq> 0 then d / b * 100 else 0))) \<and>
   comparison_improvements [(''f1'', 0.5), (''exact'', 0.0)] [(''f1'', 0.7), (''exact'', 0.2)]
     = [(''f1'', 0.2, 40.0), (''exact'', 0.2, 0)]"
proof -
  have present: "(name, c - b, if b \<noteq> 0 then (c - b) / b * 100 else 0)
        \<in> set (comparison_improvements base_metrics custom_metrics)"
    if "map_of base_metrics name = Some b" "map_of custom_metrics name = Some c"
  proof -
    from that(1) have "name \<in> fst ` set base_metrics"
      by (auto dest: map_of_SomeD intro: rev_image_eqI)
    with that show ?thesis
      unfolding mem_comparison_improvements by blast
  qed
  have only: "\<exists>b c. map_of base_metrics name' = Some b \<and> map_of custom_metrics name' = Some c \<and>
             d = c - b \<and> pct = (if b \<noteq> 0 then d / b * 100 else 0)"
    if "(name', d, pct) \<in> set (comparison_improvements base_metrics custom_metrics)"
    using that unfolding mem_comparison_improvements by blast
  have example: "comparison_improvements [(''f1'', 0.5), (''exact'', 0.0)]
      [(''f1'', 0.7), (''exact'', 0.2)] = [(''f1'', 0.2, 40.0), (''exact'', 0.2, 0)]"
    by (simp add: comparison_improvements_def)
  from present only example show ?thesis by blast
qed

theorem comparison_improvements_delta_witness:
  "map_of [(''f1'', 0.5), (''exact'', 0.0)] ''f1'' = Some (0.5 :: real) \<and>
   map_of [(''f1'', 0.7), (''exact'', 0.2)] ''f1'' = Some (0.7 :: real) \<and>
   (''f1'', 0.2, 40) \<in> set (comparison_improvements [(''f1'', 0.5), (''exact'', 0.0)]
                              [(''f1'', 0.7), (''exact'', 0.2)]) \<and>
   map_of [(''f1'', 0.5), (''exact'', 0.0)] ''exact'' = Some (0 :: real) \<and>
   map_of [(''f1'', 0.7), (''exact'', 0.2)] ''exact'' = Some (0.2 :: real) \<and>
   (''exact'', 0.2, 0) \<in> set (comparison_improvements [(''f1'', 0.5), (''exact'', 0.0)]
                              [(''f1'', 0.7), (''exact'', 0.2)])"
proof -
  let ?base = "[(''f1'', 0.5), (''exact'', 0.0)] :: (string, real) dict"
  let ?custom = "[(''f1'', 0.7), (''exact'', 0.2)] :: (string, real) dict"
  have b1: "map_of ?base ''f1'' = Some 0.5" and c1: "map_of ?custom ''f1'' = Some 0.7"
    and b2: "map_of ?base ''exact'' = Some 0" and c2: "map_of ?custom ''exact'' = Some 0.2"
    by simp_all
  have "(''f1'', 0.7 - 0.5, if (0.5 :: real) \<noteq> 0 then (0.7 - 0.5) / 0.5 * 100 else 0)
      \<in> set (comparison_improvements ?base ?custom)"
    using b1 c1 comparison_improvements_delta
      [where base_metrics = ?base and custom_metrics = ?custom and name = "''f1''"
         and b = "0.5" and c = "0.7"]
    by blast
  then have f1: "(''f1'', 0.2, 40) \<in> set (comparison_improvements ?base ?custom)"
    by simp
  have "(''exact'', 0.2 - 0, if (0 :: real) \<noteq> 0 then (0.2 - 0) / 0 * 100 else 0)
      \<in> set (comparison_improvements ?base ?custom)"
    using b2 c2 comparison_improvements_delta
      [where base_metrics = ?base and custom_metrics = ?custom and name = "''exact''"
         and b = "0" and c = "0.2"]
    by blast
  then have exact: "(''exact'', 0.2, 0) \<in> set (comparison_improvements ?base ?custom)"
    by simp
  from b1 c1 f1 b2 c2 exact show ?thesis by blast
qed

section \<open>Properties of the polling loops\<close>

lemma poll_loop_timeout:
  assumes pos: "0 < interval"
    and inflight: "\<forall>p \<in> set script. body (reply p) = Sleep interval \<and> 0 \<le> fetch_secs p \<and> 0 \<le> oversleep p"
    and slept: "real n * real_of_int interval \<le> el"
    and count: "int n \<le> \<lceil>real_of_int timeout / real_of_int interval\<rceil>"
    and enough: "nat (\<lceil>real_of_int timeout / real_of_int interval\<rceil> - int n) \<le> length script"
  shows "\<exists>r. poll_loop body timeout_error timeout el n script = Some r \<and>
           outcome r = Inl timeout_error \<and> real_of_int timeout \<le> elapsed r \<and>
           int (fetches r) \<le> \<lceil>real_of_int timeout / real_of_int interval\<rceil>"
  using inflight slept count enough
proof (induction script arbitrary: el n)
  case Nil
  let ?c = "\<lceil>real_of_int timeout / real_of_int interval\<rceil>"
  from Nil.prems(3,4) have "int n = ?c" by simp
  then have "real n = of_int ?c"
    by (metis of_int_of_nat_eq)
  moreover have ipos: "0 < real_of_int interval"
    using pos by simp
  have "real_of_int timeout / real_of_int interval \<le> of_int ?c"
    by (rule le_of_int_ceiling)
  with ipos have "real_of_int timeout \<le> of_int ?c * real_of_int interval"
    by (simp only: pos_divide_le_eq)
  ultimately have "real_of_int timeout \<le> el"
    using Nil.prems(2) by simp
  with Nil.prems(3) show ?case by simp
next
  case (Cons p script)
  let ?c = "\<lceil>real_of_int timeout / real_of_int interval\<rceil>"
  show ?case
  proof (cases "el < real_of_int timeout")
    case False
    with Cons.prems(3) show ?thesis by simp
  next
    case True
    from Cons.prems(1) have body: "body (reply p) = Sleep interval"
      and fetch: "0 \<le> fetch_secs p" and over: "0 \<le> oversleep p"
      by simp_all
    from True Cons.prems(2) have "real n * real_of_int interval < real_of_int timeout"
      by simp
    moreover have ipos: "0 < real_of_int interval"
      using pos by simp
    ultimately have "real n < real_of_int timeout / real_of_int interval"
      by (simp only: pos_less_divide_eq)
    also have "\<dots> \<le> of_int ?c"
      by (rule le_of_int_ceiling)
    finally have "int n < ?c"
      by (metis of_int_less_iff of_int_of_nat_eq)
    then have count': "int (Suc n) \<le> ?c" by simp
    have slept': "real (Suc n) * real_of_int interval
        \<le> el + fetch_secs p + real_of_int interval + oversleep p"
      using Cons.prems(2) fetch over by (simp add: algebra_simps)
    have enough': "nat (?c - int (Suc n)) \<le> length script"
      using Cons.prems(4) by simp
    have rest: "\<forall>p \<in> set script. body (reply p) = Sleep interval \<and> 0 \<le> fetch_secs p
        \<and> 0 \<le> oversleep p"
      using Cons.prems(1) by simp
    from Cons.IH [OF rest slept' count' enough'] True body pos show ?thesis
      by simp
  qed
qed


lemma inflight_bodies:
  assumes "reply p = Inr j" "status j \<noteq> ''completed''" "status j \<noteq> ''failed''"
  shows "customization_body jid i (reply p) = Sleep i"
    and "evaluation_body jid i (reply p) = Sleep i"
  using assms by (simp_all add: customization_body_def evaluation_body_def)

text \<open>
  Claim C4. A job that never reaches a terminal state, polled every \<open>polling_interval > 0\<close>
  seconds with a budget \<open>timeout \<ge> 0\<close>: both wait loops end with \<^verbatim>\<open>TimeoutError\<close>, at an
  elapsed time of at least \<open>timeout\<close>, after at most \<open>ceil(timeout / polling_interval) + 1\<close>
  status fetches. The script holds at least \<open>ceil(timeout / polling_interval)\<close> fetches, none
  terminal; fetch durations and sleep overruns are not negative.
\<close>

theorem wait_timeout_boundary:
  assumes "0 < polling_interval" and "0 \<le> timeout"
    and "\<forall>p \<in> set script.
           (\<exists>j. reply p = Inr j \<and> status j \<noteq> ''completed'' \<and> status j \<noteq> ''failed'') \<and>
           0 \<le> fetch_secs p \<and> 0 \<le> oversleep p"
    and "nat \<lceil>real_of_int timeout / real_of_int polling_interval\<rceil> \<le> length script"
  shows "(\<exists>r m. wait_for_customization jid polling_interval timeout script = Some r \<and>
            outcome r = Inl (TimeoutError m) \<and> real_of_int timeout \<le> elapsed r \<and>
            int (fetches r) \<le> \<lceil>real_of_int timeout / real_of_int polling_interval\<rceil> + 1) \<and>
         (\<exists>r m. wait_for_evaluation jid polling_interval timeout script = Some r \<and>
            outcome r = Inl (TimeoutError m) \<and> real_of_int timeout \<le> elapsed r \<and>
            int (fetches r) \<le> \<lceil>real_of_int timeout / real_of_int polling_interval\<rceil> + 1)"
proof -
  let ?c = "\<lceil>real_of_int timeout / real_of_int polling_interval\<rceil>"
  have "0 \<le> real_of_int timeout / real_of_int polling_interval"
    using assms(1,2) by simp
  then have "0 \<le> real_of_int ?c"
    using le_of_int_ceiling [of "real_of_int timeout / real_of_int polling_interval"]
    by linarith
  then have c0: "int 0 \<le> ?c" by simp
  have start: "real 0 * real_of_int polling_interval \<le> 0" by simp
  have enough: "nat (?c - int 0) \<le> length script"
    using assms(4) by simp
  have cust: "\<forall>p \<in> set script. customization_body jid polling_interval (reply p)
        = Sleep polling_interval \<and> 0 \<le> fetch_secs p \<and> 0 \<le> oversleep p"
    using assms(3) inflight_bodies(1) by blast
  have eval: "\<forall>p \<in> set script. evaluation_body jid polling_interval (reply p)
        = Sleep polling_interval \<and> 0 \<le> fetch_secs p \<and> 0 \<le> oversleep p"
    using assms(3) inflight_bodies(2) by blast
  from poll_loop_timeout [OF assms(1) cust start c0 enough]
  have "\<exists>r m. wait_for_customization jid polling_interval timeout script = Some r \<and>
            outcome r = Inl (TimeoutError m) \<and> real_of_int timeout \<le> elapsed r \<and>
            int (fetches r) \<le> ?c + 1"
    unfolding wait_for_customization_def by fastforce
  moreover from poll_loop_timeout [OF assms(1) eval start c0 enough]
  have "\<exists>r m. wait_for_evaluation jid polling_interval timeout script = Some r \<and>
            outcome r = Inl (TimeoutError m) \<and> real_of_int timeout \<le> elapsed r \<and>
            int (fetches r) \<le> ?c + 1"
    unfolding wait_for_evaluation_def by fastforce
  ultimately show ?thesis by blast
qed

theorem wait_timeout_boundary_witness:
  "(0::int) < 10 \<and> (0::int) \<le> 25 \<and>
   nat \<lceil>real_of_int 25 / real_of_int 10\<rceil> \<le> length (replicate 3
      \<lparr>reply = Inr \<lparr>job_id = ''job-1'', status = ''running'', status_details = None\<rparr>,
       fetch_secs = 1 / 2, oversleep = 0\<rparr>) \<and>
   (\<exists>r m. wait_for_customization ''job-1'' 10 25 (replicate 3
      \<lparr>reply = Inr \<lparr>job_id = ''job-1'', status = ''running'', status_details = None\<rparr>,
       fetch_secs = 1 / 2, oversleep = 0\<rparr>) = Some r \<and>
      outcome r = Inl (TimeoutError m) \<and> 25 \<le> elapsed r \<and> int (fetches r) \<le> 4)"
proof -
  let ?p = "\<lparr>reply = Inr \<lparr>job_id = ''job-1'', status = ''running'', status_details = None\<rparr>,
       fetch_secs = 1 / 2, oversleep = 0\<rparr> :: job poll"
  have h1: "(0::int) < 10" and h2: "(0::int) \<le> 25" by simp_all
  have h3: "\<forall>p \<in> set (replicate 3 ?p).
           (\<exists>j. reply p = Inr j \<and> status j \<noteq> ''completed'' \<and> status j \<noteq> ''failed'') \<and>
           0 \<le> fetch_secs p \<and> 0 \<le> oversleep p"
    by simp
  have c: "\<lceil>real_of_int 25 / real_of_int 10\<rceil> = 3" by simp
  have h4: "nat \<lceil>real_of_int 25 / real_of_int 10\<rceil> \<le> length (replicate 3 ?p)"
    unfolding c by simp
  from wait_timeout_boundary [OF h1 h2 h3 h4, of "''job-1''"] h1 h2 h4 show ?thesis
    unfolding c by auto
qed




text \<open>
  Claim C3. An exception of the status fetch is absorbed by the deployment wait only: there
  the loop sleeps and polls again. In the customization wait and in the evaluation wait the
  fetch is outside any \<^verbatim>\<open>try\<close>, so the first exception ends the wait after one fetch and
  is what the wait raises.
\<close>

theorem wait_fetch_error_aborts:
  "wait_for_customization jid i 6000 (\<lparr>reply = Inl e, fetch_secs = d, oversleep = x\<rparr> # script)
     = Some \<lparr>outcome = Inl e, fetches = 1, elapsed = d\<rparr> \<and>
   wait_for_evaluation jid i 600 (\<lparr>reply = Inl e, fetch_secs = d, oversleep = x\<rparr> # script)
     = Some \<lparr>outcome = Inl e, fetches = 1, elapsed = d\<rparr> \<and>
   wait_for_deployment model_name namespace 600
     [\<lparr>reply = Inl e, fetch_secs = 1, oversleep = 0\<rparr>,
      \<lparr>reply = Inr \<lparr>deployment_name = model_name, deployment_namespace = namespace,
                     deployed = True\<rparr>, fetch_secs = 1, oversleep = 0\<rparr>]
     = Some \<lparr>outcome = Inr \<lparr>deployment_name = model_name, deployment_namespace = namespace,
                            deployed = True\<rparr>, fetches = 2, elapsed = 12\<rparr>"
  by (simp add: wait_for_customization_def wait_for_evaluation_def wait_for_deployment_def
      customization_body_def evaluation_body_def deployment_body_def)

section \<open>Properties of model deployment\<close>

text \<open>
  Claim C5. When the create call of \<^verbatim>\<open>deploy_nim\<close> raises an exception whose text contains
  \<^verbatim>\<open>500\<close> (the test by which the code recognises an existing deployment), \<^verbatim>\<open>deploy_nim\<close>
  gives what the retrieve call for this namespace and deployment name gives: the existing
  deployment record when that call returns one, whatever the \<^verbatim>\<open>wait\<close> flag, and never the
  exception of the create call.
\<close>

theorem deploy_nim_conflict_fallback:
  "create_reply env = Inl e \<and> sublist ''500'' (str e) \<longrightarrow>
     deploy_nim model_name namespace wait timeout env
       = Some (retrieve_by_name env namespace model_name) \<and>
     (retrieve_by_name env namespace model_name = Inr existing \<longrightarrow>
        deploy_nim model_name namespace wait timeout env = Some (Inr existing))"
  by (simp add: deploy_nim_def deploy_nim_handler_def)

theorem deploy_nim_conflict_fallback_witness:
  "sublist ''500'' (str (StatusError 500 ''Error code: 500 - deployment exists'')) \<and>
   deploy_nim ''llama-3.2-1b-instruct-deployment'' ''meta'' True 600
     \<lparr>create_reply = Inl (StatusError 500 ''Error code: 500 - deployment exists''),
      wait_script = [],
      retrieve_by_name = retrieve_from
        [\<lparr>deployment_name = ''llama-3.2-1b-instruct-deployment'',
          deployment_namespace = ''meta'', deployed = True\<rparr>]\<rparr>
     = Some (Inr \<lparr>deployment_name = ''llama-3.2-1b-instruct-deployment'',
                   deployment_namespace = ''meta'', deployed = True\<rparr>)"
proof -
  let ?d = "\<lparr>deployment_name = ''llama-3.2-1b-instruct-deployment'',
             deployment_namespace = ''meta'', deployed = True\<rparr>"
  let ?e = "StatusError 500 ''Error code: 500 - deployment exists''"
  let ?env = "\<lparr>create_reply = Inl ?e, wait_script = [],
      retrieve_by_name = retrieve_from [?d]\<rparr>"
  have h: "sublist ''500'' (str ?e)" by code_simp
  have "create_reply ?env = Inl ?e"
    and "retrieve_by_name ?env ''meta'' ''llama-3.2-1b-instruct-deployment'' = Inr ?d"
    by (simp_all add: retrieve_from_def)
  with h deploy_nim_conflict_fallback [where env = ?env and e = ?e and existing = ?d
      and namespace = "''meta''" and model_name = "''llama-3.2-1b-instruct-deployment''"]
  show ?thesis by blast
qed

text \<open>
  The recognition is by the text alone. A create call answered with the conflict status
  409 and the text \<^verbatim>\<open>deployment already exists\<close>, and one answered with status 500 and the
  text \<^verbatim>\<open>Internal Server Error\<close>, both leave \<^verbatim>\<open>deploy_nim\<close> with \<^verbatim>\<open>UnboundLocalError\<close>, although
  the retrieve call would return the existing record.
\<close>

theorem deploy_nim_conflict_fallback_counterexample:
  "retrieve_from
     [\<lparr>deployment_name = ''llama-3.2-1b-instruct-deployment'',
       deployment_namespace = ''meta'', deployed = True\<rparr>]
     ''meta'' ''llama-3.2-1b-instruct-deployment''
     = Inr \<lparr>deployment_name = ''llama-3.2-1b-instruct-deployment'',
            deployment_namespace = ''meta'', deployed = True\<rparr> \<and>
   deploy_nim ''llama-3.2-1b-instruct-deployment'' ''meta'' True 600
     \<lparr>create_reply = Inl (StatusError 409 ''deployment already exists''),
      wait_script = [],
      retrieve_by_name = retrieve_from
        [\<lparr>deployment_name = ''llama-3.2-1b-instruct-deployment'',
          deployment_namespace = ''meta'', deployed = True\<rparr>]\<rparr>
     = Some (Inl (UnboundLocalError
         ''cannot access local variable 'deployment' where it is not associated with a value'')) \<and>
   deploy_nim ''llama-3.2-1b-instruct-deployment'' ''meta'' True 600
     \<lparr>create_reply = Inl (StatusError 500 ''Internal Server Error''),
      wait_script = [],
      retrieve_by_name = retrieve_from
        [\<lparr>deployment_name = ''llama-3.2-1b-instruct-deployment'',
          deployment_namespace = ''meta'', deployed = True\<rparr>]\<rparr>
     = Some (Inl (UnboundLocalError
         ''cannot access local variable 'deployment' where it is not associated with a value''))"
proof -
  have "\<not> sublist ''500'' (str (StatusError 409 ''deployment already exists''))"
    by code_simp
  moreover have "\<not> sublist ''500'' (str (StatusError 500 ''Internal Server Error''))"
    by code_simp
  ultimately show ?thesis
    by (simp add: deploy_nim_def deploy_nim_handler_def retrieve_from_def)
qed

text \<open>
  Claim C6. When the create call of \<^verbatim>\<open>deploy_nim\<close> raises an exception whose text does not
  contain \<^verbatim>\<open>500\<close>, the handler reaches \<^verbatim>\<open>return deployment\<close> with the variable unbound:
  \<^verbatim>\<open>deploy_nim\<close> raises \<^verbatim>\<open>UnboundLocalError\<close>, not the exception of the create call.
\<close>

theorem deploy_nim_unbound_local:
  "create_reply env = Inl e \<and> \<not> sublist ''500'' (str e) \<longrightarrow>
     (\<exists>m. deploy_nim model_name namespace wait timeout env = Some (Inl (UnboundLocalError m))) \<and>
     (e = RemoteError msg \<longrightarrow>
        deploy_nim model_name namespace wait timeout env \<noteq> Some (Inl e))"
  by (auto simp: deploy_nim_def deploy_nim_handler_def)

theorem deploy_nim_unbound_local_witness:
  "\<not> sublist ''500'' (str (RemoteError ''Error code: 403 - forbidden'')) \<and>
   (\<exists>m. deploy_nim ''llama-3.2-1b-instruct-deployment'' ''meta'' True 600
     \<lparr>create_reply = Inl (RemoteError ''Error code: 403 - forbidden''),
      wait_script = [],
      retrieve_by_name = retrieve_from []\<rparr>
     = Some (Inl (UnboundLocalError m))) \<and>
   deploy_nim ''llama-3.2-1b-instruct-deployment'' ''meta'' True 600
     \<lparr>create_reply = Inl (RemoteError ''Error code: 403 - forbidden''),
      wait_script = [],
      retrieve_by_name = retrieve_from []\<rparr>
     \<noteq> Some (Inl (RemoteError ''Error code: 403 - forbidden''))"
proof -
  let ?e = "RemoteError ''Error code: 403 - forbidden''"
  let ?env = "\<lparr>create_reply = Inl ?e, wait_script = [],
               retrieve_by_name = retrieve_from []\<rparr>"
  have h: "\<not> sublist ''500'' (str ?e)" by code_simp
  have "create_reply ?env = Inl ?e" by simp
  with h deploy_nim_unbound_local [where env = ?env and e = ?e
      and msg = "''Error code: 403 - forbidden''"]
  show ?thesis by blast
qed

section \<open>Properties of the pipeline\<close>

text \<open>
  Claim C1. What \<^verbatim>\<open>main\<close> does when the Deploy phase fails. Without \<^verbatim>\<open>--all\<close> it returns 1
  right after Deploy, so no later phase runs. With \<^verbatim>\<open>--all\<close> it does not return, but the
  gates of PrepareDataset, Customize and Evaluate still test the success flag, which is
  now false, and Compare finds no custom model: Deploy is the only phase that ran, and the
  exit code is 0. After a failed Customize phase, by contrast, \<^verbatim>\<open>--all\<close> does let Evaluate
  run.
\<close>

theorem main_deploy_failure:
  "main (a\<lparr>deploy := True, all := False\<rparr>) (w\<lparr>deployment_outcome := Inl e\<rparr>) = ([Deploy], 1) \<and>
   main (a\<lparr>all := True\<rparr>) (w\<lparr>deployment_outcome := Inl e\<rparr>) = ([Deploy], 0) \<and>
   main (a\<lparr>all := True\<rparr>)
     (w\<lparr>deployment_outcome := Inr d, dataset_outcome := Inr (),
        customization_outcome := Inl e, evaluation_outcome := (\<lambda>m. Inr ms)\<rparr>)
     = ([Deploy, PrepareDataset, Customize, Evaluate], 0)"
  by (simp add: main_def run_deployment_phase_def run_dataset_preparation_phase_def
      run_customization_phase_def run_evaluation_phase_def str_truthy_def Let_def
      split: option.splits)

end
